theory Spec2Isabelle
  imports Complex_Main
begin

section \<open>Shader source templates: \<open>glsl\<close> and \<open>frag\<close>\<close>

text \<open>
  \<^verbatim>\<open>type Value = string | number\<close>. The two JavaScript built-ins that \<open>glsl\<close> applies to a
  number, \<^verbatim>\<open>Boolean(n)\<close> (inside \<^verbatim>\<open>filter(Boolean)\<close>) and \<^verbatim>\<open>String(n)\<close> (inside
  \<^verbatim>\<open>join("")\<close>), belong to the language and not to the repository; they are taken as
  the two fields of \<open>number_ops\<close>, so the number type \<open>'n\<close> stays arbitrary.
\<close>

datatype 'n Value = Str string | Num 'n

record 'n number_ops =
  toBoolean :: "'n \<Rightarrow> bool"
  toString :: "'n \<Rightarrow> string"

text \<open>
  Integer-valued numbers, the instance used to run the definitions: \<^verbatim>\<open>Boolean(n)\<close> is
  false exactly for \<open>0\<close>, and \<^verbatim>\<open>String(n)\<close> is the decimal numeral.
\<close>

fun digits :: "nat \<Rightarrow> string" where
  "digits n =
     (if n < 10 then [''0123456789'' ! n]
      else digits (n div 10) @ [''0123456789'' ! (n mod 10)])"

declare digits.simps [simp del]

definition int_toString :: "int \<Rightarrow> string" where
  "int_toString i = (if i < 0 then CHR ''-'' # digits (nat (- i)) else digits (nat i))"

definition int_ops :: "int number_ops" where
  "int_ops = \<lparr>toBoolean = (\<lambda>i. i \<noteq> 0), toString = int_toString\<rparr>"

text \<open>
  An array element of the intermediate array is a \<open>Value\<close> or \<^verbatim>\<open>undefined\<close> (\<open>None\<close>):
  \<^verbatim>\<open>values[i]\<close> is \<^verbatim>\<open>undefined\<close> when \<open>i\<close> is past the end of \<open>values\<close>.
\<close>

definition index :: "'a list \<Rightarrow> nat \<Rightarrow> 'a option" where
  "index xs i = (if i < length xs then Some (xs ! i) else None)"

fun Boolean :: "'n number_ops \<Rightarrow> 'n Value option \<Rightarrow> bool" where
  "Boolean ops None = False"
| "Boolean ops (Some (Str s)) = (s \<noteq> [])"
| "Boolean ops (Some (Num n)) = toBoolean ops n"

fun String :: "'n number_ops \<Rightarrow> 'n Value option \<Rightarrow> string" where
  "String ops None = []"
| "String ops (Some (Str s)) = s"
| "String ops (Some (Num n)) = toString ops n"

definition flatMap :: "('a \<Rightarrow> nat \<Rightarrow> 'b list) \<Rightarrow> 'a list \<Rightarrow> 'b list" where
  "flatMap f xs = concat (map (\<lambda>(i, x). f x i) (enumerate 0 xs))"

definition join :: "'n number_ops \<Rightarrow> 'n Value option list \<Rightarrow> string" where
  "join ops xs = concat (map (String ops) xs)"

text \<open>
  \<^verbatim>\<open>
  export const glsl = (source: TemplateStringsArray, ...values: Values) => {
    const processed = source.flatMap((s, i) => [s, values[i]]).filter(Boolean);
    return processed.join("");
  };
  \<close>
\<close>

definition glsl :: "'n number_ops \<Rightarrow> string list \<Rightarrow> 'n Value list \<Rightarrow> string" where
  "glsl ops source values =
     (let processed = filter (Boolean ops) (flatMap (\<lambda>s i. [Some (Str s), index values i]) source)
      in join ops processed)"

text \<open>
  The same function in the words of the specification: the segments interleaved with
  the values, the falsy elements left out, the rest concatenated.
\<close>

fun interleave :: "string list \<Rightarrow> 'n Value list \<Rightarrow> 'n Value list" where
  "interleave [] vs = []"
| "interleave (s # ss) [] = Str s # interleave ss []"
| "interleave (s # ss) (v # vs) = Str s # v # interleave ss vs"

fun falsy :: "'n number_ops \<Rightarrow> 'n Value \<Rightarrow> bool" where
  "falsy ops (Str s) = (s = [])"
| "falsy ops (Num n) = (\<not> toBoolean ops n)"

fun text_of :: "'n number_ops \<Rightarrow> 'n Value \<Rightarrow> string" where
  "text_of ops (Str s) = s"
| "text_of ops (Num n) = toString ops n"

definition glsl_spec :: "'n number_ops \<Rightarrow> string list \<Rightarrow> 'n Value list \<Rightarrow> string" where
  "glsl_spec ops source values =
     concat (map (text_of ops) (filter (\<lambda>v. \<not> falsy ops v) (interleave source values)))"

text \<open>
  \<^verbatim>\<open>
  export const frag = (source: TemplateStringsArray, ...values: Values) => {
    const code = glsl(source, ...values);
    const rt = Skia.RuntimeEffect.Make(code);
    if (rt === null) {
      throw new Error("Couln't Compile Shader");
    }
    return rt;
  };
  \<close>
  \<^verbatim>\<open>Skia.RuntimeEffect.Make\<close> is the graphics library's compiler; it is the parameter
  \<open>Make\<close>, with \<open>None\<close> for \<^verbatim>\<open>null\<close>. The \<^verbatim>\<open>throw\<close> is the \<open>Inl\<close> result.
\<close>

datatype Error = Error string

definition frag ::
  "'n number_ops \<Rightarrow> (string \<Rightarrow> 'rt option) \<Rightarrow> string list \<Rightarrow> 'n Value list \<Rightarrow> Error + 'rt" where
  "frag ops Make source values =
     (let code = glsl ops source values;
          rt = Make code
      in case rt of
           None \<Rightarrow> Inl (Error ''Couln't Compile Shader'')
         | Some e \<Rightarrow> Inr e)"

text \<open>
  The two templates of the source. \<open>transition\<close> is the tagged template
  \<^verbatim>\<open>frag`<head>${t}<tail>`\<close>: two string segments around one interpolated value.
  \<open>directionalwrap\<close> is \<^verbatim>\<open>glsl`<source>`\<close>: one segment and no value.
\<close>

definition transition_head :: string where
  "transition_head =
     ''\<newline>'' @
     ''  uniform shader image1;\<newline>'' @
     ''  uniform shader image2;\<newline>'' @
     ''\<newline>'' @
     ''  uniform float progress;\<newline>'' @
     ''  uniform float2 resolution;\<newline>'' @
     ''  \<newline>'' @
     ''  half4 getFromColor(float2 uv) {\<newline>'' @
     ''    return image1.eval(uv * resolution);\<newline>'' @
     ''  }\<newline>'' @
     ''  \<newline>'' @
     ''  half4 getToColor(float2 uv) {\<newline>'' @
     ''    return image2.eval(uv * resolution);\<newline>'' @
     ''  }\<newline>'' @
     ''  \<newline>'' @
     ''  ''"

definition transition_tail :: string where
  "transition_tail =
     ''\<newline>'' @
     ''\<newline>'' @
     ''  half4 main(vec2 xy) {\<newline>'' @
     ''    vec2 uv = xy / resolution;\<newline>'' @
     ''    return transition(uv);\<newline>'' @
     ''  }\<newline>'' @
     ''  ''"

definition directionalwrap_source :: string where
  "directionalwrap_source =
     ''\<newline>'' @
     ''// Author: pschroen\<newline>'' @
     ''// License: MIT\<newline>'' @
     ''\<newline>'' @
     ''const vec2 direction = vec2(-1.0, 1.0);\<newline>'' @
     ''\<newline>'' @
     ''const float smoothness = 0.5;\<newline>'' @
     ''const vec2 center = vec2(0.5, 0.5);\<newline>'' @
     ''\<newline>'' @
     ''vec4 transition (vec2 uv) {\<newline>'' @
     ''  vec2 v = normalize(direction);\<newline>'' @
     ''  v /= abs(v.x) + abs(v.y);\<newline>'' @
     ''  float d = v.x * center.x + v.y * center.y;\<newline>'' @
     ''  float m = 1.0 - smoothstep(-smoothness, 0.0, v.x * uv.x + v.y * uv.y - (d - 0.5 + progress * (1.0 + smoothness)));\<newline>'' @
     ''  return mix(getFromColor((uv - 0.5) * (1.0 - m) + 0.5), getToColor((uv - 0.5) * m + 0.5), m);\<newline>'' @
     ''}\<newline>'' @
     ''\<newline>'' @
     ''\<newline>''"

definition transition ::
  "'n number_ops \<Rightarrow> (string \<Rightarrow> 'rt option) \<Rightarrow> string \<Rightarrow> Error + 'rt" where
  "transition ops Make t = frag ops Make [transition_head, transition_tail] [Str t]"

definition directionalwrap :: "'n number_ops \<Rightarrow> string" where
  "directionalwrap ops = glsl ops [directionalwrap_source] []"

section \<open>The shader program\<close>

text \<open>
  The shader text is a program of its own; its functions are translated one by one, with
  \<^verbatim>\<open>float\<close> read as \<open>real\<close>. The child shaders \<^verbatim>\<open>image1\<close> and \<^verbatim>\<open>image2\<close> are functions
  from a position to a colour (\<^verbatim>\<open>image1.eval\<close>), the two uniforms are a record.
\<close>

type_synonym vec2 = "real \<times> real"

datatype vec4 = vec4 real real real real

type_synonym shader = "vec2 \<Rightarrow> vec4"

record Uniforms =
  progress_uniform :: real
  resolution :: vec2

text \<open>The built-in functions the shader calls, as the shading language defines them.\<close>

definition normalize :: "vec2 \<Rightarrow> vec2" where
  "normalize v = (let n = sqrt (fst v * fst v + snd v * snd v) in (fst v / n, snd v / n))"

definition clamp :: "real \<Rightarrow> real \<Rightarrow> real \<Rightarrow> real" where
  "clamp x lo hi = min (max x lo) hi"

definition smoothstep :: "real \<Rightarrow> real \<Rightarrow> real \<Rightarrow> real" where
  "smoothstep edge0 edge1 x =
     (let t = clamp ((x - edge0) / (edge1 - edge0)) 0 1 in t * t * (3 - 2 * t))"

fun mix :: "vec4 \<Rightarrow> vec4 \<Rightarrow> real \<Rightarrow> vec4" where
  "mix (vec4 x1 x2 x3 x4) (vec4 y1 y2 y3 y4) a =
     vec4 (x1 * (1 - a) + y1 * a) (x2 * (1 - a) + y2 * a)
          (x3 * (1 - a) + y3 * a) (x4 * (1 - a) + y4 * a)"

text \<open>
  \<^verbatim>\<open>
  half4 getFromColor(float2 uv) { return image1.eval(uv * resolution); }
  half4 getToColor(float2 uv) { return image2.eval(uv * resolution); }
  \<close>
\<close>

definition getFromColor :: "shader \<Rightarrow> Uniforms \<Rightarrow> vec2 \<Rightarrow> vec4" where
  "getFromColor image1 u uv = image1 (fst uv * fst (resolution u), snd uv * snd (resolution u))"

definition getToColor :: "shader \<Rightarrow> Uniforms \<Rightarrow> vec2 \<Rightarrow> vec4" where
  "getToColor image2 u uv = image2 (fst uv * fst (resolution u), snd uv * snd (resolution u))"

text \<open>
  \<^verbatim>\<open>
  const vec2 direction = vec2(-1.0, 1.0);
  const float smoothness = 0.5;
  const vec2 center = vec2(0.5, 0.5);
  \<close>
\<close>

definition direction :: vec2 where
  "direction = (- 1, 1)"

definition smoothness :: real where
  "smoothness = 1 / 2"

definition center :: vec2 where
  "center = (1 / 2, 1 / 2)"

text \<open>
  The local \<^verbatim>\<open>m\<close> of the shader function \<^verbatim>\<open>transition\<close>, with the three statements
  before it:
  \<^verbatim>\<open>
  vec2 v = normalize(direction);
  v /= abs(v.x) + abs(v.y);
  float d = v.x * center.x + v.y * center.y;
  float m = 1.0 - smoothstep(-smoothness, 0.0,
      v.x * uv.x + v.y * uv.y - (d - 0.5 + progress * (1.0 + smoothness)));
  \<close>
\<close>

definition wipe_mask :: "Uniforms \<Rightarrow> vec2 \<Rightarrow> real" where
  "wipe_mask u uv =
     (let v0 = normalize direction;
          v = (fst v0 / (\<bar>fst v0\<bar> + \<bar>snd v0\<bar>), snd v0 / (\<bar>fst v0\<bar> + \<bar>snd v0\<bar>));
          d = fst v * fst center + snd v * snd center
      in 1 - smoothstep (- smoothness) 0
             (fst v * fst uv + snd v * snd uv
                - (d - 1 / 2 + progress_uniform u * (1 + smoothness))))"

text \<open>
  \<^verbatim>\<open>
  vec4 transition (vec2 uv) {
    ...
    return mix(getFromColor((uv - 0.5) * (1.0 - m) + 0.5),
               getToColor((uv - 0.5) * m + 0.5), m);
  }
  half4 main(vec2 xy) {
    vec2 uv = xy / resolution;
    return transition(uv);
  }
  \<close>
  The shader function \<^verbatim>\<open>transition\<close> is \<open>transition_uv\<close> here, the name \<open>transition\<close>
  being taken by the function that builds the effect.
\<close>

definition transition_uv :: "shader \<Rightarrow> shader \<Rightarrow> Uniforms \<Rightarrow> vec2 \<Rightarrow> vec4" where
  "transition_uv image1 image2 u uv =
     (let m = wipe_mask u uv
      in mix (getFromColor image1 u
                ((fst uv - 1 / 2) * (1 - m) + 1 / 2, (snd uv - 1 / 2) * (1 - m) + 1 / 2))
             (getToColor image2 u
                ((fst uv - 1 / 2) * m + 1 / 2, (snd uv - 1 / 2) * m + 1 / 2))
             m)"

definition main :: "shader \<Rightarrow> shader \<Rightarrow> Uniforms \<Rightarrow> vec2 \<Rightarrow> vec4" where
  "main image1 image2 u xy =
     (let uv = (fst xy / fst (resolution u), snd xy / snd (resolution u))
      in transition_uv image1 image2 u uv)"

section \<open>The screen component \<open>App\<close>\<close>

text \<open>
  \<^verbatim>\<open>useColorScheme()\<close> gives \<^verbatim>\<open>"light"\<close>, \<^verbatim>\<open>"dark"\<close> or null; null is \<open>None\<close>.
\<close>

datatype ColorSchemeName = light | dark

text \<open>
  The view under \<^verbatim>\<open>ref\<close> shows three things that depend on the colour scheme: its
  background colour, the colour of the header and the icon of the theme switcher
  (\<^verbatim>\<open>colorScheme === "light" ? ... : ...\<close>, four times in the source).
\<close>

datatype Style = BackgroundColor string | InterpolateColor real string string

datatype Icon = MoonIcon string | SunIcon string

datatype Themed = Themed Style string Icon

definition themed :: "ColorSchemeName option \<Rightarrow> Themed" where
  "themed cs =
     Themed
       (if cs = Some light then BackgroundColor ''white'' else BackgroundColor ''#020617'')
       (if cs = Some light then ''#0f172a'' else ''#f1f5f9'')
       (if cs = Some light then MoonIcon ''#1e293b'' else SunIcon ''#e2e8f0'')"

text \<open>
  An \<open>SkImage\<close> is a bitmap of the view under \<^verbatim>\<open>ref\<close>: it is what that view showed when
  it was captured.
\<close>

datatype SkImage = SkImage Themed

subsection \<open>Shared values of the animation library\<close>

text \<open>
  A shared value holds its current value and, while \<^verbatim>\<open>withTiming\<close> drives it, the
  animation: where it started, its target, its duration and the time it has run, both
  in milliseconds. \<open>scheduled\<close> counts the calls of the \<^verbatim>\<open>withTiming\<close> callback that the
  library has decided on and that have not run yet; the component has one such
  callback, the one it passes on l.141.

  The library's value setter, as it treats the two kinds of assignment of the source:
  \<^item> every assignment first cancels the animation that is running, and a cancelled
    animation calls its callback (with \<^verbatim>\<open>finished = false\<close>) on its next frame: \<open>cancel\<close>;
  \<^item> \<^verbatim>\<open>sv.value = v\<close> then stores \<open>v\<close>: \<open>assign\<close>;
  \<^item> \<^verbatim>\<open>sv.value = withTiming(toValue, {duration}, callback)\<close>, when the current value
    already is \<open>toValue\<close>, calls the callback at once and starts nothing; otherwise it
    starts the animation from the current value, or, over a cancelled timing animation
    to the same target, on that animation's timeline, and runs its first frame:
    \<open>withTiming\<close>;
  \<^item> a frame after \<open>dt\<close> more milliseconds moves the value along the easing curve, and
    once the running time has reached the duration it stores the target, ends the
    animation and calls the callback: \<open>frame\<close>.
  No easing is passed on l.141, so the easing is the default of \<^verbatim>\<open>withTiming\<close>,
  \<^verbatim>\<open>Easing.inOut(Easing.quad)\<close>.
\<close>

record Animation =
  startValue :: real
  toValue :: real
  duration :: nat
  elapsed :: nat

record SharedValue =
  current :: real
  running :: "Animation option"
  scheduled :: nat

definition useSharedValue :: "real \<Rightarrow> SharedValue" where
  "useSharedValue v = \<lparr>current = v, running = None, scheduled = 0\<rparr>"

definition Easing_inOut_quad :: "real \<Rightarrow> real" where
  "Easing_inOut_quad t = (if t < 1 / 2 then 2 * t * t else 1 - 2 * (1 - t) * (1 - t))"

definition cancel :: "SharedValue \<Rightarrow> SharedValue" where
  "cancel sv =
     (case running sv of
        None \<Rightarrow> sv
      | Some a \<Rightarrow> sv\<lparr>running := None, scheduled := scheduled sv + 1\<rparr>)"

definition assign :: "real \<Rightarrow> SharedValue \<Rightarrow> SharedValue" where
  "assign v sv = (cancel sv)\<lparr>current := v\<rparr>"

definition frame :: "nat \<Rightarrow> SharedValue \<Rightarrow> SharedValue" where
  "frame dt sv =
     (case running sv of
        None \<Rightarrow> sv
      | Some a \<Rightarrow>
          (let runtime = elapsed a + dt
           in if duration a \<le> runtime
              then sv\<lparr>current := toValue a, running := None, scheduled := scheduled sv + 1\<rparr>
              else sv\<lparr>current := startValue a + (toValue a - startValue a) *
                                   Easing_inOut_quad (real runtime / real (duration a)),
                      running := Some (a\<lparr>elapsed := runtime\<rparr>)\<rparr>))"

definition withTiming :: "real \<Rightarrow> nat \<Rightarrow> SharedValue \<Rightarrow> SharedValue" where
  "withTiming t d sv =
     (let sv' = cancel sv
      in if current sv' = t then sv'\<lparr>scheduled := scheduled sv' + 1\<rparr>
         else frame 0
                (sv'\<lparr>running := Some
                   (case running sv of
                      None \<Rightarrow> \<lparr>startValue = current sv, toValue = t, duration = d, elapsed = 0\<rparr>
                    | Some a \<Rightarrow>
                        if toValue a = t
                        then \<lparr>startValue = startValue a, toValue = t, duration = d,
                              elapsed = elapsed a\<rparr>
                        else \<lparr>startValue = current sv, toValue = t, duration = d,
                              elapsed = 0\<rparr>)\<rparr>))"

subsection \<open>The state of the component and its handlers\<close>

text \<open>
  The state of the component: the two shared values, the colour scheme that
  \<^verbatim>\<open>useColorScheme\<close> returns, and the two \<^verbatim>\<open>useState<SkImage | null>\<close> cells.
\<close>

record App =
  progress :: SharedValue
  colorScheme :: "ColorSchemeName option"
  colorSchemeSv :: "ColorSchemeName option"
  firstSnapshot :: "SkImage option"
  secondSnapshot :: "SkImage option"

definition App_init :: "ColorSchemeName option \<Rightarrow> App" where
  "App_init cs =
     \<lparr>progress = useSharedValue 0, colorScheme = cs, colorSchemeSv = cs,
      firstSnapshot = None, secondSnapshot = None\<rparr>"

definition setFirstSnapshot :: "SkImage option \<Rightarrow> App \<Rightarrow> App" where
  "setFirstSnapshot x s = s\<lparr>firstSnapshot := x\<rparr>"

definition setSecondSnapshot :: "SkImage option \<Rightarrow> App \<Rightarrow> App" where
  "setSecondSnapshot x s = s\<lparr>secondSnapshot := x\<rparr>"

definition Appearance_setColorScheme :: "ColorSchemeName \<Rightarrow> App \<Rightarrow> App" where
  "Appearance_setColorScheme c s = s\<lparr>colorScheme := Some c\<rparr>"

text \<open>
  A handler is the list of its statements, in the order of the source; running it
  applies them one after the other, and \<open>states\<close> gives the state after each.
\<close>

type_synonym Statement = "App \<Rightarrow> App"

definition run :: "Statement list \<Rightarrow> App \<Rightarrow> App" where
  "run stmts s = foldl (\<lambda>a stmt. stmt a) s stmts"

fun states :: "Statement list \<Rightarrow> App \<Rightarrow> App list" where
  "states [] s = []"
| "states (stmt # stmts) s = stmt s # states stmts (stmt s)"

text \<open>
  \<^verbatim>\<open>makeImageFromView(ref)\<close> belongs to the graphics library. Its promise resolves with an
  image of the view under \<^verbatim>\<open>ref\<close>, or with null, or it is rejected; which of the three
  is not decided by the component. \<open>makeImageFromView\<close> gives the image (or null) that a
  resolved capture delivers in a state.
\<close>

datatype Capture = Captured | ResolvedNull | Rejected

definition makeImageFromView :: "Capture \<Rightarrow> App \<Rightarrow> SkImage option" where
  "makeImageFromView c s = (if c = Captured then Some (SkImage (themed (colorScheme s))) else None)"

text \<open>
  \<^verbatim>\<open>
  const changeTheme = async () => {
    progress.value = 0;
    const snapshot1 = await makeImageFromView(ref);
    setFirstSnapshot(snapshot1);
    Appearance.setColorScheme(colorScheme === "light" ? "dark" : "light");
  };
  \<close>
  \<open>changeTheme snapshot1\<close> is the handler whose capture resolved with \<open>snapshot1\<close>;
  \<open>colorScheme\<close> in the last statement is the value the component was rendered with.
  When the capture is rejected the handler ends at the \<^verbatim>\<open>await\<close>: \<open>changeTheme_rejected\<close>.
\<close>

definition changeTheme_statements ::
  "SkImage option \<Rightarrow> ColorSchemeName option \<Rightarrow> Statement list" where
  "changeTheme_statements snapshot1 cs =
     [\<lambda>a. a\<lparr>progress := assign 0 (progress a)\<rparr>,
      setFirstSnapshot snapshot1,
      Appearance_setColorScheme (if cs = Some light then dark else light)]"

definition changeTheme :: "SkImage option \<Rightarrow> App \<Rightarrow> App" where
  "changeTheme snapshot1 s = run (changeTheme_statements snapshot1 (colorScheme s)) s"

definition changeTheme_rejected :: "App \<Rightarrow> App" where
  "changeTheme_rejected s = run (take 1 (changeTheme_statements None (colorScheme s))) s"

text \<open>
  \<^verbatim>\<open>
  Appearance.addChangeListener(async ({ colorScheme }) => {
    setTimeout(async () => {
      const snapshot2 = await makeImageFromView(ref);
      setSecondSnapshot(snapshot2);
      colorSchemeSv.value = colorScheme;
      progress.value = withTiming(1, { duration: 1700 }, () => {
        runOnJS(setFirstSnapshot)(null);
        runOnJS(setSecondSnapshot)(null);
      });
    }, 100);
  });
  \<close>
  \<open>changeListener cs snapshot2\<close> is the body of the timer, for the scheme \<open>cs\<close> the listener
  was called with and a capture that resolved with \<open>snapshot2\<close>; when the capture is
  rejected the body ends at the \<^verbatim>\<open>await\<close> and changes nothing. \<open>withTiming_callback\<close> is
  the third argument of \<^verbatim>\<open>withTiming\<close>.
\<close>

definition changeListener_statements ::
  "ColorSchemeName option \<Rightarrow> SkImage option \<Rightarrow> Statement list" where
  "changeListener_statements cs snapshot2 =
     [setSecondSnapshot snapshot2,
      \<lambda>a. a\<lparr>colorSchemeSv := cs\<rparr>,
      \<lambda>a. a\<lparr>progress := withTiming 1 1700 (progress a)\<rparr>]"

definition changeListener :: "ColorSchemeName option \<Rightarrow> SkImage option \<Rightarrow> App \<Rightarrow> App" where
  "changeListener cs snapshot2 s = run (changeListener_statements cs snapshot2) s"

definition withTiming_callback :: "App \<Rightarrow> App" where
  "withTiming_callback s = run [setFirstSnapshot None, setSecondSnapshot None] s"

subsection \<open>What the component returns\<close>

text \<open>
  \<^verbatim>\<open>
  const uniforms = useDerivedValue(() => {
    return { progress: progress.value, resolution: [width, height] };
  });
  const transitioning = firstSnapshot !== null && secondSnapshot !== null;
  \<close>
  \<open>width\<close> and \<open>height\<close> are the window's dimensions.
\<close>

definition uniforms :: "real \<Rightarrow> real \<Rightarrow> App \<Rightarrow> Uniforms" where
  "uniforms width height s =
     \<lparr>progress_uniform = current (progress s), resolution = (width, height)\<rparr>"

definition transitioning :: "App \<Rightarrow> bool" where
  "transitioning s = (firstSnapshot s \<noteq> None \<and> secondSnapshot s \<noteq> None)"

text \<open>
  What the component returns, as a tree of the elements it builds. The number of a
  \<open>Canvas\<close> is the \<^verbatim>\<open>height\<close> of its style, the two numbers of an image are its
  \<^verbatim>\<open>width\<close> and \<^verbatim>\<open>height\<close>. \<open>ThemedView\<close> is the view under \<^verbatim>\<open>ref\<close>.
\<close>

datatype 'rt Element =
    AnimatedView Style "'rt Element list"
  | View "'rt Element list"
  | Canvas real "'rt Element list"
  | Fill "'rt Element list"
  | Shader 'rt Uniforms "'rt Element list"
  | ImageShader "SkImage option" real real
  | Image "SkImage option" real real
  | ThemedView Themed

definition animatedBackgroundColor :: "App \<Rightarrow> Style" where
  "animatedBackgroundColor s =
     (if colorSchemeSv s = Some light
      then InterpolateColor (current (progress s)) ''#020617'' ''#ffffff''
      else InterpolateColor (current (progress s)) ''#ffffff'' ''#020617'')"

definition themedView :: "ColorSchemeName option \<Rightarrow> 'rt Element" where
  "themedView cs = ThemedView (themed cs)"

definition App ::
  "'n number_ops \<Rightarrow> (string \<Rightarrow> 'rt option) \<Rightarrow> real \<Rightarrow> real \<Rightarrow> App \<Rightarrow> Error + 'rt Element" where
  "App ops Make width height s =
     (if transitioning s then
        (case transition ops Make (directionalwrap ops) of
           Inl e \<Rightarrow> Inl e
         | Inr source \<Rightarrow>
             Inr (AnimatedView (animatedBackgroundColor s)
                   [Canvas height
                     [Fill
                       [Shader source (uniforms width height s)
                         [ImageShader (firstSnapshot s) width height,
                          ImageShader (secondSnapshot s) width height]]]]))
      else
        Inr (View
              ((if firstSnapshot s \<noteq> None
                then [Canvas height [Image (firstSnapshot s) width height]]
                else []) @
               [themedView (colorScheme s)])))"

text \<open>
  Where the children of the plain view are on the screen. The view has \<^verbatim>\<open>flex: 1\<close> and
  fills the window; no child has a position of its own in its style, so the framework
  stacks the children in a column in their order, each at its own height: the canvas at
  the \<^verbatim>\<open>height\<close> of its style, the view under \<^verbatim>\<open>ref\<close> at the height of its content. A box is
  the pair of the top and the bottom of a child, the window is the rows from \<open>0\<close> to its
  height.
\<close>

type_synonym Box = "real \<times> real"

fun height_of :: "real \<Rightarrow> 'rt Element \<Rightarrow> real" where
  "height_of content (Canvas h children) = h"
| "height_of content (ThemedView t) = content"
| "height_of content e = 0"

fun column :: "real \<Rightarrow> real \<Rightarrow> 'rt Element list \<Rightarrow> (Box \<times> 'rt Element) list" where
  "column content y [] = []"
| "column content y (e # es) =
     ((y, y + height_of content e), e) # column content (y + height_of content e) es"

fun layout :: "real \<Rightarrow> 'rt Element \<Rightarrow> (Box \<times> 'rt Element) list" where
  "layout content (View children) = column content 0 children"
| "layout content e = []"



section \<open>The cards and their atoms\<close>

text \<open>
  \<^verbatim>\<open>
  const bikeAtom = atom(false);
  const milkAtom = atom(false);
  const teddybearAtom = atom(false);
  const ballAtom = atom(false);
  \<close>
  The store of the atom library gives every atom its value. \<open>themeSwitchAtom\<close> is
  imported by the cards, which only read it.
\<close>

datatype Atom = bikeAtom | milkAtom | teddybearAtom | ballAtom | themeSwitchAtom

type_synonym Store = "Atom \<Rightarrow> bool"

definition Store_init :: "bool \<Rightarrow> Store" where
  "Store_init isThemeSwitching = (\<lambda>a. if a = themeSwitchAtom then isThemeSwitching else False)"

definition Cards :: "Atom list" where
  "Cards = [bikeAtom, milkAtom, teddybearAtom, ballAtom]"

text \<open>
  \<^verbatim>\<open>
  const [isLiked, setIsLiked] = useAtom(cardAtom);
  ... <Pressable onPress={() => setIsLiked(!isLiked)}>
  \<close>
\<close>

definition Card_onPress :: "Atom \<Rightarrow> Store \<Rightarrow> Store" where
  "Card_onPress cardAtom st = (let isLiked = st cardAtom in st(cardAtom := \<not> isLiked))"

section \<open>The screen as a transition system\<close>

text \<open>
  The state of the screen is the state of \<open>App\<close>, the store of the atoms, and the timers
  that the change listener has set and that have not fired, each with the colour scheme
  the listener was called with. The events:
  \<^item> a press of the theme switcher, with what becomes of its capture;
  \<^item> a change of the system's appearance, which \<^verbatim>\<open>useColorScheme\<close> follows;
  \<^item> the oldest timer of the change listener firing, with what becomes of its capture;
  \<^item> a frame of the animation, some milliseconds after the last;
  \<^item> a scheduled call of the \<^verbatim>\<open>withTiming\<close> callback running;
  \<^item> a press of the like affordance of a card.
  The appearance module calls the change listener whenever the colour scheme has
  changed, by \<^verbatim>\<open>Appearance.setColorScheme\<close> or by the system: \<open>listener_called\<close>.
\<close>

record Screen =
  app :: App
  store :: Store
  timers :: "ColorSchemeName option list"

datatype Event =
    ThemeSwitcherPressed Capture
  | SystemAppearance "ColorSchemeName option"
  | TimerFired Capture
  | Frame nat
  | CallbackRun
  | LikePressed Atom

definition listener_called :: "ColorSchemeName option \<Rightarrow> Screen \<Rightarrow> Screen" where
  "listener_called old scr =
     (if colorScheme (app scr) = old then scr
      else scr\<lparr>timers := timers scr @ [colorScheme (app scr)]\<rparr>)"

fun step :: "Event \<Rightarrow> Screen \<Rightarrow> Screen" where
  "step (ThemeSwitcherPressed c) scr =
     (if c = Rejected then scr\<lparr>app := changeTheme_rejected (app scr)\<rparr>
      else listener_called (colorScheme (app scr))
             (scr\<lparr>app := changeTheme (makeImageFromView c (app scr)) (app scr)\<rparr>))"
| "step (SystemAppearance cs) scr =
     listener_called (colorScheme (app scr)) (scr\<lparr>app := (app scr)\<lparr>colorScheme := cs\<rparr>\<rparr>)"
| "step (TimerFired c) scr =
     (case timers scr of
        [] \<Rightarrow> scr
      | cs # rest \<Rightarrow>
          if c = Rejected then scr\<lparr>timers := rest\<rparr>
          else scr\<lparr>timers := rest,
                   app := changeListener cs (makeImageFromView c (app scr)) (app scr)\<rparr>)"
| "step (Frame dt) scr = scr\<lparr>app := (app scr)\<lparr>progress := frame dt (progress (app scr))\<rparr>\<rparr>"
| "step CallbackRun scr =
     (if scheduled (progress (app scr)) = 0 then scr
      else scr\<lparr>app := withTiming_callback
                 ((app scr)\<lparr>progress := (progress (app scr))
                    \<lparr>scheduled := scheduled (progress (app scr)) - 1\<rparr>\<rparr>)\<rparr>)"
| "step (LikePressed cardAtom) scr = scr\<lparr>store := Card_onPress cardAtom (store scr)\<rparr>"

text \<open>
  When an event can happen: the theme switcher and the cards are in the tree only while
  the component is not transitioning; the system's appearance changes to another scheme;
  a timer fires if one is set, a frame comes if an animation is running, a callback runs
  if one is scheduled.
\<close>

fun enabled :: "Event \<Rightarrow> Screen \<Rightarrow> bool" where
  "enabled (ThemeSwitcherPressed c) scr = (\<not> transitioning (app scr))"
| "enabled (SystemAppearance cs) scr = (cs \<noteq> colorScheme (app scr))"
| "enabled (TimerFired c) scr = (timers scr \<noteq> [])"
| "enabled (Frame dt) scr = (running (progress (app scr)) \<noteq> None)"
| "enabled CallbackRun scr = (0 < scheduled (progress (app scr)))"
| "enabled (LikePressed cardAtom) scr = (\<not> transitioning (app scr) \<and> cardAtom \<in> set Cards)"

definition Screen_init :: "ColorSchemeName option \<Rightarrow> bool \<Rightarrow> Screen" where
  "Screen_init cs isThemeSwitching =
     \<lparr>app = App_init cs, store = Store_init isThemeSwitching, timers = []\<rparr>"

text \<open>
  The states the screen reaches from its first render by events that satisfy \<open>P\<close>;
  \<open>reachable\<close> takes every event, \<open>reachable_resolving\<close> leaves out the timers whose
  capture is rejected.
\<close>

inductive reachable_by :: "(Event \<Rightarrow> bool) \<Rightarrow> Screen \<Rightarrow> bool" for P :: "Event \<Rightarrow> bool" where
  init: "reachable_by P (Screen_init cs isThemeSwitching)"
| step: "reachable_by P scr \<Longrightarrow> P e \<Longrightarrow> enabled e scr \<Longrightarrow> reachable_by P (step e scr)"

definition reachable :: "Screen \<Rightarrow> bool" where
  "reachable = reachable_by (\<lambda>e. True)"

definition reachable_resolving :: "Screen \<Rightarrow> bool" where
  "reachable_resolving = reachable_by (\<lambda>e. e \<noteq> TimerFired Rejected)"

definition pending :: "Screen \<Rightarrow> bool" where
  "pending scr =
     (timers scr \<noteq> [] \<or> running (progress (app scr)) \<noteq> None \<or>
      0 < scheduled (progress (app scr)))"

text \<open>
  The phases of the specification, read off \<open>transitioning\<close>, and the snapshots the
  component holds.
\<close>

datatype Phase = Idle | Transitioning

definition phase :: "App \<Rightarrow> Phase" where
  "phase s = (if transitioning s then Transitioning else Idle)"

definition snapshots :: "App \<Rightarrow> SkImage list" where
  "snapshots s = List.map_filter id [firstSnapshot s, secondSnapshot s]"

section \<open>Properties of \<open>glsl\<close>\<close>

lemma index_drop: "index values k = (case drop k values of [] \<Rightarrow> None | v # _ \<Rightarrow> Some v)"
proof (cases "k < length values")
  case True
  then show ?thesis
    by (simp add: index_def Cons_nth_drop_Suc [symmetric])
next
  case False
  then show ?thesis
    by (simp add: index_def)
qed

lemma Boolean_Some: "Boolean ops (Some v) = (\<not> falsy ops v)"
  by (cases v) simp_all

lemma String_Some: "String ops (Some v) = text_of ops v"
  by (cases v) simp_all

lemma processed_interleave:
  "filter (Boolean ops)
     (concat (map (\<lambda>(i, s). [Some (Str s), index values i]) (enumerate k source))) =
   map Some (filter (\<lambda>v. \<not> falsy ops v) (interleave source (drop k values)))"
proof (induction source arbitrary: k)
  case Nil
  show ?case by simp
next
  case (Cons s ss)
  note IH = Cons.IH [of "Suc k"]
  show ?case
  proof (cases "drop k values")
    case Nil
    then have later: "drop (Suc k) values = []"
      by simp
    from Nil have "index values k = None"
      by (simp add: index_drop)
    with IH Nil later show ?thesis
      by simp
  next
    case (Cons v vs)
    then have later: "drop (Suc k) values = vs"
      by (metis drop_Suc list.sel(3) tl_drop)
    from Cons have "index values k = Some v"
      by (simp add: index_drop)
    with IH Cons later show ?thesis
      by (simp add: Boolean_Some)
  qed
qed

text \<open>
  Claim C8. For every template invocation, \<open>glsl\<close> returns the concatenation of the string
  segments interleaved with the interpolated values, with every falsy element (an empty
  segment, an empty string value, a number that \<^verbatim>\<open>Boolean\<close> maps to false, such as \<open>0\<close>)
  left out.
\<close>

theorem glsl_drops_falsy: "glsl ops source values = glsl_spec ops source values"
proof -
  have "filter (Boolean ops) (flatMap (\<lambda>s i. [Some (Str s), index values i]) source) =
        map Some (filter (\<lambda>v. \<not> falsy ops v) (interleave source values))"
    using processed_interleave [of ops "values" 0 source]
    by (simp add: flatMap_def)
  then show ?thesis
    by (simp add: glsl_def glsl_spec_def join_def comp_def String_Some)
qed

theorem glsl_drops_falsy_witness:
  "glsl int_ops [''a'', '''', ''c''] [Num 0, Str ''b''] = ''abc'' \<and>
   glsl int_ops [''a'', '''', ''c''] [Num 7, Str ''''] = ''a7c''"
  using glsl_drops_falsy [of int_ops "[''a'', '''', ''c'']" "[Num 0, Str ''b'']"]
    glsl_drops_falsy [of int_ops "[''a'', '''', ''c'']" "[Num 7, Str '''']"]
  by (simp add: glsl_spec_def int_ops_def int_toString_def digits.simps [of 7])

section \<open>Properties of \<open>frag\<close>\<close>

text \<open>
  Claim C2. \<open>frag\<close> fails exactly when the compilation of the assembled source returns
  null; the failure is the error itself, with no effect produced in its place; and
  whenever the compilation succeeds, \<open>frag\<close> returns the compiled effect.
\<close>

theorem frag_fails_iff_Make_null:
  "((\<exists>e. frag ops Make source values = Inl e) \<longleftrightarrow> Make (glsl ops source values) = None) \<and>
   (Make (glsl ops source values) = None \<longrightarrow>
      frag ops Make source values = Inl (Error ''Couln't Compile Shader'') \<and>
      (\<forall>rt. frag ops Make source values \<noteq> Inr rt)) \<and>
   (\<forall>rt. Make (glsl ops source values) = Some rt \<longrightarrow> frag ops Make source values = Inr rt)"
  by (cases "Make (glsl ops source values)") (simp_all add: frag_def)

theorem frag_fails_iff_Make_null_witness:
  "frag int_ops (\<lambda>code. if code = ''ok'' then Some (1::nat) else None) [''o'', ''k''] [Str ''''] = Inr 1 \<and>
   frag int_ops (\<lambda>code. if code = ''ok'' then Some (1::nat) else None) [''o'', ''k''] [Num 7] =
     Inl (Error ''Couln't Compile Shader'')"
  using frag_fails_iff_Make_null
      [of int_ops "\<lambda>code. if code = ''ok'' then Some (1::nat) else None" "[''o'', ''k'']" "[Str '''']"]
    frag_fails_iff_Make_null
      [of int_ops "\<lambda>code. if code = ''ok'' then Some (1::nat) else None" "[''o'', ''k'']" "[Num 7]"]
  by (simp add: glsl_def flatMap_def join_def index_def enumerate_eq_zip int_ops_def
      int_toString_def digits.simps [of 7])

section \<open>The assembled shader and what it computes\<close>

lemma glsl_one_value:
  "h \<noteq> [] \<Longrightarrow> x \<noteq> [] \<Longrightarrow> t \<noteq> [] \<Longrightarrow> glsl ops [h, t] [Str x] = h @ x @ t"
  by (simp add: glsl_def flatMap_def join_def index_def enumerate_eq_zip)

lemma glsl_no_value: "h \<noteq> [] \<Longrightarrow> glsl ops [h] [] = h"
  by (simp add: glsl_def flatMap_def join_def index_def enumerate_eq_zip)

lemma templates_nonempty:
  "transition_head \<noteq> []" "transition_tail \<noteq> []" "directionalwrap_source \<noteq> []"
  by (simp_all add: transition_head_def transition_tail_def directionalwrap_source_def)

lemma directionalwrap_text: "directionalwrap ops = directionalwrap_source"
  by (simp add: directionalwrap_def glsl_no_value templates_nonempty)

lemma transition_code:
  "transition ops Make (directionalwrap ops) =
     (case Make (transition_head @ directionalwrap_source @ transition_tail) of
        None \<Rightarrow> Inl (Error ''Couln't Compile Shader'')
      | Some rt \<Rightarrow> Inr rt)"
  by (simp add: transition_def frag_def directionalwrap_text glsl_one_value templates_nonempty)

lemma normalize_direction: "normalize direction = (- (1 / sqrt 2), 1 / sqrt 2)"
  by (simp add: normalize_def direction_def Let_def)

lemma wipe_mask_closed:
  "wipe_mask u uv =
     1 - smoothstep (- (1 / 2)) 0 ((snd uv - fst uv) / 2 + 1 / 2 - 3 / 2 * progress_uniform u)"
proof -
  have vx: "(- (1 / sqrt 2)) / (\<bar>- (1 / sqrt 2)\<bar> + \<bar>1 / sqrt 2\<bar>) = - (1 / 2)"
    by (simp add: field_simps)
  have vy: "(1 / sqrt 2) / (\<bar>- (1 / sqrt 2)\<bar> + \<bar>1 / sqrt 2\<bar>) = 1 / 2"
    by (simp add: field_simps)
  have arg: "- (1 / 2) * fst uv + 1 / 2 * snd uv
               - (- (1 / 2) * (1 / 2) + 1 / 2 * (1 / 2) - 1 / 2 + progress_uniform u * (1 + 1 / 2))
             = (snd uv - fst uv) / 2 + 1 / 2 - 3 / 2 * progress_uniform u"
    by (simp add: field_simps)
  show ?thesis
    unfolding wipe_mask_def normalize_direction Let_def fst_conv snd_conv vx vy center_def
      smoothness_def arg
    by (rule refl)
qed

lemma main_closed:
  "main image1 image2 u xy =
     (let uv = (fst xy / fst (resolution u), snd xy / snd (resolution u));
          m = 1 - smoothstep (- (1 / 2)) 0
                    ((snd uv - fst uv) / 2 + 1 / 2 - 3 / 2 * progress_uniform u)
      in mix (image1 (((fst uv - 1 / 2) * (1 - m) + 1 / 2) * fst (resolution u),
                      ((snd uv - 1 / 2) * (1 - m) + 1 / 2) * snd (resolution u)))
             (image2 (((fst uv - 1 / 2) * m + 1 / 2) * fst (resolution u),
                      ((snd uv - 1 / 2) * m + 1 / 2) * snd (resolution u)))
             m)"
  by (simp add: main_def transition_uv_def wipe_mask_closed getFromColor_def getToColor_def Let_def)

lemma App_transitioning:
  "transitioning s \<Longrightarrow>
   Make (transition_head @ directionalwrap_source @ transition_tail) = Some rt \<Longrightarrow>
   App ops Make w h s =
     Inr (AnimatedView (animatedBackgroundColor s)
           [Canvas h
             [Fill
               [Shader rt (uniforms w h s)
                 [ImageShader (firstSnapshot s) w h, ImageShader (secondSnapshot s) w h]]]])"
  by (simp add: App_def transition_code)

text \<open>
  At the two ends of the animation the shader shows one image alone: the first image
  at progress \<open>0\<close>, the second at progress \<open>1\<close>, for every pixel of the window.
\<close>

lemma clamp_hi: "1 \<le> x \<Longrightarrow> clamp x 0 1 = 1"
  by (simp add: clamp_def)

lemma clamp_lo: "x \<le> 0 \<Longrightarrow> clamp x 0 1 = 0"
  by (simp add: clamp_def)

lemma smoothstep_above: "e0 < e1 \<Longrightarrow> e1 \<le> x \<Longrightarrow> smoothstep e0 e1 x = 1"
proof -
  assume "e0 < e1" "e1 \<le> x"
  then have "1 \<le> (x - e0) / (e1 - e0)"
    by (simp add: le_divide_eq)
  then show ?thesis
    by (simp add: smoothstep_def clamp_hi)
qed

lemma smoothstep_below: "e0 < e1 \<Longrightarrow> x \<le> e0 \<Longrightarrow> smoothstep e0 e1 x = 0"
proof -
  assume "e0 < e1" "x \<le> e0"
  then have "(x - e0) / (e1 - e0) \<le> 0"
    by (simp add: divide_le_0_iff)
  then show ?thesis
    by (simp add: smoothstep_def clamp_lo)
qed

lemma mix_0: "mix a b 0 = a"
  by (cases a; cases b) simp

lemma mix_1: "mix a b 1 = b"
  by (cases a; cases b) simp

lemma mask_arg_start:
  "a \<le> 1 \<Longrightarrow> 0 \<le> b \<Longrightarrow> (0::real) \<le> (b - a) / 2 + 1 / 2 - 3 / 2 * 0"
  by (simp add: field_simps)

lemma mask_arg_end:
  "0 \<le> a \<Longrightarrow> b \<le> 1 \<Longrightarrow> (b - a) / 2 + 1 / 2 - 3 / 2 * 1 \<le> - (1 / 2 :: real)"
  by (simp add: field_simps)

lemma main_at_progress_0:
  assumes "progress_uniform u = 0" "0 < fst (resolution u)" "0 < snd (resolution u)"
    "0 \<le> fst xy" "fst xy \<le> fst (resolution u)" "0 \<le> snd xy" "snd xy \<le> snd (resolution u)"
  shows "main image1 image2 u xy = image1 xy"
proof -
  let ?uv = "(fst xy / fst (resolution u), snd xy / snd (resolution u))"
  have "fst ?uv \<le> 1" "0 \<le> snd ?uv"
    using assms by simp_all
  then have "0 \<le> (snd ?uv - fst ?uv) / 2 + 1 / 2 - 3 / 2 * progress_uniform u"
    unfolding assms(1) by (rule mask_arg_start)
  then have "smoothstep (- (1 / 2)) 0
               ((snd ?uv - fst ?uv) / 2 + 1 / 2 - 3 / 2 * progress_uniform u) = 1"
    by (intro smoothstep_above) simp_all
  then show ?thesis
    using assms(2,3) by (simp add: main_closed Let_def mix_0)
qed

lemma main_at_progress_1:
  assumes "progress_uniform u = 1" "0 < fst (resolution u)" "0 < snd (resolution u)"
    "0 \<le> fst xy" "fst xy \<le> fst (resolution u)" "0 \<le> snd xy" "snd xy \<le> snd (resolution u)"
  shows "main image1 image2 u xy = image2 xy"
proof -
  let ?uv = "(fst xy / fst (resolution u), snd xy / snd (resolution u))"
  have "0 \<le> fst ?uv" "snd ?uv \<le> 1"
    using assms by simp_all
  then have "(snd ?uv - fst ?uv) / 2 + 1 / 2 - 3 / 2 * progress_uniform u \<le> - (1 / 2)"
    unfolding assms(1) by (rule mask_arg_end)
  then have "smoothstep (- (1 / 2)) 0
               ((snd ?uv - fst ?uv) / 2 + 1 / 2 - 3 / 2 * progress_uniform u) = 0"
    by (intro smoothstep_below) simp_all
  then show ?thesis
    using assms(2,3) by (simp add: main_closed Let_def mix_1)
qed

text \<open>
  Claim C6. While the component is transitioning it draws one shader, compiled from
  the assembled text, whose two children are the first and the second snapshot in this
  order (the shader's \<^verbatim>\<open>image1\<close> and \<^verbatim>\<open>image2\<close>). For every pixel the shader returns
  \<^verbatim>\<open>mix\<close> of one sample of \<^verbatim>\<open>image1\<close> and one sample of \<^verbatim>\<open>image2\<close> by the mask \<open>m\<close>, and \<open>m\<close>
  is a function of the pixel's position, of the direction \<open>(-1, 1)\<close>, which normalises
  to \<open>(-1/2, 1/2)\<close>, and of the progress uniform.
\<close>

theorem shader_mixes_two_snapshots:
  "(transitioning s \<and>
    Make (transition_head @ directionalwrap_source @ transition_tail) = Some rt \<longrightarrow>
      App ops Make w h s =
        Inr (AnimatedView (animatedBackgroundColor s)
              [Canvas h
                [Fill
                  [Shader rt (uniforms w h s)
                    [ImageShader (firstSnapshot s) w h,
                     ImageShader (secondSnapshot s) w h]]]])) \<and>
   main image1 image2 u xy =
     (let uv = (fst xy / fst (resolution u), snd xy / snd (resolution u));
          m = 1 - smoothstep (- (1 / 2)) 0
                    ((snd uv - fst uv) / 2 + 1 / 2 - 3 / 2 * progress_uniform u)
      in mix (image1 (((fst uv - 1 / 2) * (1 - m) + 1 / 2) * fst (resolution u),
                      ((snd uv - 1 / 2) * (1 - m) + 1 / 2) * snd (resolution u)))
             (image2 (((fst uv - 1 / 2) * m + 1 / 2) * fst (resolution u),
                      ((snd uv - 1 / 2) * m + 1 / 2) * snd (resolution u)))
             m)"
  using App_transitioning [of s Make rt ops w h] main_closed [of image1 image2 u xy]
  by blast

theorem shader_mixes_two_snapshots_witness:
  "transitioning
     \<lparr>progress = useSharedValue (1 / 2), colorScheme = Some dark, colorSchemeSv = Some dark,
      firstSnapshot = Some (SkImage (themed (Some light))), secondSnapshot = Some (SkImage (themed (Some dark)))\<rparr> \<and>
   App int_ops Some 4 2
     \<lparr>progress = useSharedValue (1 / 2), colorScheme = Some dark, colorSchemeSv = Some dark,
      firstSnapshot = Some (SkImage (themed (Some light))), secondSnapshot = Some (SkImage (themed (Some dark)))\<rparr> =
     Inr (AnimatedView (InterpolateColor (1 / 2) ''#ffffff'' ''#020617'')
           [Canvas 2
             [Fill
               [Shader (transition_head @ directionalwrap_source @ transition_tail)
                 \<lparr>progress_uniform = 1 / 2, resolution = (4, 2)\<rparr>
                 [ImageShader (Some (SkImage (themed (Some light)))) 4 2, ImageShader (Some (SkImage (themed (Some dark)))) 4 2]]]]) \<and>
   main (\<lambda>p. vec4 0 0 0 1) (\<lambda>p. vec4 1 1 1 1) \<lparr>progress_uniform = 1 / 2, resolution = (4, 2)\<rparr> (2, 1) =
     vec4 (1 / 2) (1 / 2) (1 / 2) 1"
proof -
  let ?s = "\<lparr>progress = useSharedValue (1 / 2), colorScheme = Some dark, colorSchemeSv = Some dark,
      firstSnapshot = Some (SkImage (themed (Some light))), secondSnapshot = Some (SkImage (themed (Some dark)))\<rparr>"
  have t: "transitioning ?s"
    by (simp add: transitioning_def)
  have m: "smoothstep (- (1 / 2)) 0 (- (1 / 4)) = 1 / 2"
    by (simp add: smoothstep_def clamp_def)
  from t shader_mixes_two_snapshots
      [of ?s Some "transition_head @ directionalwrap_source @ transition_tail" int_ops 4 2
        "\<lambda>p. vec4 0 0 0 1" "\<lambda>p. vec4 1 1 1 1" "\<lparr>progress_uniform = 1 / 2, resolution = (4, 2)\<rparr>"
        "(2, 1)"]
  show ?thesis
    by (simp add: m animatedBackgroundColor_def uniforms_def useSharedValue_def Let_def)
qed

section \<open>Properties of the handlers\<close>

lemmas handler_defs = changeTheme_def changeTheme_statements_def changeTheme_rejected_def
  changeListener_def changeListener_statements_def withTiming_callback_def run_def
  setFirstSnapshot_def setSecondSnapshot_def Appearance_setColorScheme_def
  makeImageFromView_def

lemmas value_defs = assign_def cancel_def withTiming_def frame_def Let_def

lemma Easing_0: "Easing_inOut_quad 0 = 0"
  by (simp add: Easing_inOut_quad_def)

lemma changeTheme_fields:
  "progress (changeTheme x s) = assign 0 (progress s)"
  "firstSnapshot (changeTheme x s) = x"
  "secondSnapshot (changeTheme x s) = secondSnapshot s"
  "colorScheme (changeTheme x s) = Some (if colorScheme s = Some light then dark else light)"
  "colorSchemeSv (changeTheme x s) = colorSchemeSv s"
  by (simp_all add: handler_defs)

lemma changeTheme_rejected_fields:
  "progress (changeTheme_rejected s) = assign 0 (progress s)"
  "firstSnapshot (changeTheme_rejected s) = firstSnapshot s"
  "secondSnapshot (changeTheme_rejected s) = secondSnapshot s"
  "colorScheme (changeTheme_rejected s) = colorScheme s"
  "colorSchemeSv (changeTheme_rejected s) = colorSchemeSv s"
  by (simp_all add: handler_defs)

lemma changeListener_fields:
  "progress (changeListener cs x s) = withTiming 1 1700 (progress s)"
  "firstSnapshot (changeListener cs x s) = firstSnapshot s"
  "secondSnapshot (changeListener cs x s) = x"
  "colorScheme (changeListener cs x s) = colorScheme s"
  "colorSchemeSv (changeListener cs x s) = cs"
  by (simp_all add: handler_defs)

lemma withTiming_callback_fields:
  "progress (withTiming_callback s) = progress s"
  "firstSnapshot (withTiming_callback s) = None"
  "secondSnapshot (withTiming_callback s) = None"
  "colorScheme (withTiming_callback s) = colorScheme s"
  "colorSchemeSv (withTiming_callback s) = colorSchemeSv s"
  by (simp_all add: handler_defs)

lemmas fields = changeTheme_fields changeTheme_rejected_fields changeListener_fields
  withTiming_callback_fields

lemma listener_called_fields:
  "app (listener_called old scr) = app scr"
  "store (listener_called old scr) = store scr"
  "timers (listener_called old scr) =
     (if colorScheme (app scr) = old then timers scr else timers scr @ [colorScheme (app scr)])"
  by (simp_all add: listener_called_def)

lemmas init_defs = Screen_init_def App_init_def Store_init_def useSharedValue_def

lemmas eval_defs = init_defs fields listener_called_fields makeImageFromView_def
  transitioning_def value_defs Easing_0

text \<open>
  Claim C9. \<open>changeTheme\<close> sets the colour scheme to dark if and only if the current
  scheme is light; for every other current scheme, null included, it sets it to light.
\<close>

theorem changeTheme_scheme:
  "(colorScheme (changeTheme snapshot1 s) = Some dark \<longleftrightarrow> colorScheme s = Some light) \<and>
   (colorScheme s \<noteq> Some light \<longrightarrow> colorScheme (changeTheme snapshot1 s) = Some light)"
  by (simp add: handler_defs)

theorem changeTheme_scheme_witness:
  "colorScheme (changeTheme (Some (SkImage (themed (Some light)))) (App_init (Some light))) = Some dark \<and>
   colorScheme (changeTheme None (App_init (Some dark))) = Some light \<and>
   colorScheme (changeTheme (Some (SkImage (themed None))) (App_init None)) = Some light"
  using changeTheme_scheme [of "Some (SkImage (themed (Some light)))" "App_init (Some light)"]
    changeTheme_scheme [of None "App_init (Some dark)"]
    changeTheme_scheme [of "Some (SkImage (themed None))" "App_init None"]
  by (simp add: App_init_def)

subsection \<open>The animation of the progress\<close>

lemma Easing_between:
  assumes "0 < x" "x < 1"
  shows "0 < Easing_inOut_quad x \<and> Easing_inOut_quad x < 1"
proof (cases "x < 1 / 2")
  case True
  have "x * x < (1 / 2) * (1 / 2)"
    using assms(1) True by (intro mult_strict_mono) simp_all
  moreover have "0 < x * x"
    using assms(1) by simp
  ultimately show ?thesis
    using True by (simp add: Easing_inOut_quad_def)
next
  case False
  define q where "q = (1 - x) * (1 - x)"
  have y: "0 < 1 - x" "1 - x \<le> 1 / 2"
    using assms(2) False by simp_all
  have "q \<le> (1 / 2) * (1 / 2)"
    unfolding q_def using y by (intro mult_mono) simp_all
  moreover have "0 < q"
    unfolding q_def using y(1) by simp
  moreover have "Easing_inOut_quad x = 1 - 2 * q"
    using False by (simp add: Easing_inOut_quad_def q_def)
  ultimately show ?thesis
    by simp
qed

lemma frame_frame: "frame d2 (frame d1 sv) = frame (d1 + d2) sv"
  by (cases "running sv") (simp_all add: frame_def Let_def add.assoc)

lemma frames_sum:
  "dts \<noteq> [] \<Longrightarrow> foldl (\<lambda>sv dt. frame dt sv) sv dts = frame (sum_list dts) sv"
proof (induction dts arbitrary: sv)
  case Nil
  then show ?case by simp
next
  case (Cons dt dts)
  show ?case
  proof (cases "dts = []")
    case True
    then show ?thesis by simp
  next
    case False
    with Cons.IH [of "frame dt sv"] show ?thesis
      by (simp add: frame_frame)
  qed
qed

text \<open>
  When the progress already is at the target, the change listener starts no animation:
  the callback is scheduled at once.
\<close>

lemma changeListener_at_target:
  "current (progress s) = 1 \<Longrightarrow>
   running (progress (changeListener cs snapshot2 s)) = None \<and>
   current (progress (changeListener cs snapshot2 s)) = 1 \<and>
   0 < scheduled (progress (changeListener cs snapshot2 s))"
  by (simp add: handler_defs value_defs split: option.splits)

text \<open>
  Claim C4. For every transition: \<open>changeTheme\<close> sets the progress to \<open>0\<close>; the change
  listener then starts, from that \<open>0\<close>, the timing animation to \<open>1\<close> whose duration is the
  constant \<open>1700\<close> milliseconds. However the time is cut into frames, \<open>t\<close> milliseconds
  into the animation the progress is the easing of \<open>t / 1700\<close>, which lies strictly
  between \<open>0\<close> and \<open>1\<close> for \<open>0 < t < 1700\<close>; from \<open>1700\<close> milliseconds on the progress is
  \<open>1\<close>, the animation has ended and its callback is scheduled. The progress uniform of
  the shader is the current value of the progress.
\<close>

theorem progress_zero_to_one:
  "(let s1 = changeTheme snapshot1 s;
        s2 = changeListener cs snapshot2 s1;
        anim = \<lparr>startValue = 0, toValue = 1, duration = 1700, elapsed = 0\<rparr>
    in current (progress s1) = 0 \<and> running (progress s1) = None \<and>
       progress_uniform (uniforms w h s1) = 0 \<and>
       progress s2 = (progress s1)\<lparr>running := Some anim\<rparr> \<and>
       (\<forall>dts. dts \<noteq> [] \<longrightarrow>
          foldl (\<lambda>sv dt. frame dt sv) (progress s2) dts = frame (sum_list dts) (progress s2)) \<and>
       (\<forall>t<1700. frame t (progress s2) =
          (progress s1)\<lparr>current := Easing_inOut_quad (real t / 1700),
                         running := Some (anim\<lparr>elapsed := t\<rparr>)\<rparr>) \<and>
       (\<forall>t. 0 < t \<and> t < 1700 \<longrightarrow>
          0 < Easing_inOut_quad (real t / 1700) \<and> Easing_inOut_quad (real t / 1700) < 1) \<and>
       (\<forall>t\<ge>1700. frame t (progress s2) =
          (progress s1)\<lparr>current := 1, scheduled := scheduled (progress s1) + 1\<rparr>)) \<and>
   (\<forall>s'. progress_uniform (uniforms w h s') = current (progress s')) \<and>
   (\<forall>scr dt. progress (app (step (Frame dt) scr)) = frame dt (progress (app scr)))"
proof -
  have between: "\<forall>t. 0 < t \<and> t < 1700 \<longrightarrow>
      0 < Easing_inOut_quad (real t / 1700) \<and> Easing_inOut_quad (real t / 1700) < 1"
    by (intro allI impI Easing_between) simp_all
  have p1: "progress (changeTheme snapshot1 s) = (cancel (progress s))\<lparr>current := 0\<rparr>"
    by (simp add: handler_defs assign_def)
  have r1: "running (cancel (progress s)) = None"
    by (simp add: cancel_def split: option.splits)
  show ?thesis
    using between frames_sum
    by (simp add: Let_def p1 r1 changeListener_def changeListener_statements_def run_def
        setSecondSnapshot_def withTiming_def frame_def Easing_0 uniforms_def
        cancel_def split: option.splits)
qed

theorem progress_zero_to_one_witness:
  "(850::nat) < 1700 \<and>
   frame 850 (progress (changeListener (Some dark) (Some (SkImage (themed (Some dark))))
     (changeTheme (Some (SkImage (themed (Some light)))) (App_init (Some light))))) =
     \<lparr>current = 1 / 2,
      running = Some \<lparr>startValue = 0, toValue = 1, duration = 1700, elapsed = 850\<rparr>,
      scheduled = 0\<rparr> \<and>
   (1700::nat) \<le> 1700 \<and>
   frame 1700 (progress (changeListener (Some dark) (Some (SkImage (themed (Some dark))))
     (changeTheme (Some (SkImage (themed (Some light)))) (App_init (Some light))))) =
     \<lparr>current = 1, running = None, scheduled = 1\<rparr> \<and>
   transitioning (app (step (Frame 850) (step (TimerFired Captured)
     (step (ThemeSwitcherPressed Captured) (Screen_init (Some light) False))))) \<and>
   progress_uniform (uniforms 4 2 (app (step (Frame 850) (step (TimerFired Captured)
     (step (ThemeSwitcherPressed Captured) (Screen_init (Some light) False)))))) = 1 / 2"
proof -
  let ?s1 = "changeTheme (Some (SkImage (themed (Some light)))) (App_init (Some light))"
  let ?s2 = "changeListener (Some dark) (Some (SkImage (themed (Some dark)))) ?s1"
  let ?anim = "\<lparr>startValue = 0, toValue = 1, duration = 1700, elapsed = 0\<rparr>"
  note T = progress_zero_to_one [of "Some (SkImage (themed (Some light)))" "App_init (Some light)"
      "Some dark" "Some (SkImage (themed (Some dark)))" 4 2, unfolded Let_def]
  have p1: "progress ?s1 = \<lparr>current = 0, running = None, scheduled = 0\<rparr>"
    by (simp add: App_init_def useSharedValue_def handler_defs value_defs)
  have e: "Easing_inOut_quad (real (850::nat) / 1700) = 1 / 2"
    by (simp add: Easing_inOut_quad_def)
  from T have "\<forall>t<1700. frame t (progress ?s2) =
      (progress ?s1)\<lparr>current := Easing_inOut_quad (real t / 1700),
                       running := Some (?anim\<lparr>elapsed := t\<rparr>)\<rparr>"
    by blast
  then have "(850::nat) < 1700 \<longrightarrow> frame 850 (progress ?s2) =
      (progress ?s1)\<lparr>current := Easing_inOut_quad (real (850::nat) / 1700),
                       running := Some (?anim\<lparr>elapsed := 850\<rparr>)\<rparr>"
    by blast
  then have f: "frame 850 (progress ?s2) =
      \<lparr>current = 1 / 2,
       running = Some \<lparr>startValue = 0, toValue = 1, duration = 1700, elapsed = 850\<rparr>,
       scheduled = 0\<rparr>"
    unfolding p1 e by simp
  from T have "\<forall>t\<ge>1700. frame t (progress ?s2) =
      (progress ?s1)\<lparr>current := 1, scheduled := scheduled (progress ?s1) + 1\<rparr>"
    by blast
  then have "(1700::nat) \<le> 1700 \<longrightarrow> frame 1700 (progress ?s2) =
      (progress ?s1)\<lparr>current := 1, scheduled := scheduled (progress ?s1) + 1\<rparr>"
    by blast
  then have g: "frame 1700 (progress ?s2) = \<lparr>current = 1, running = None, scheduled = 1\<rparr>"
    unfolding p1 by simp
  have u: "transitioning (app (step (Frame 850) (step (TimerFired Captured)
      (step (ThemeSwitcherPressed Captured) (Screen_init (Some light) False)))))"
    "progress_uniform (uniforms 4 2 (app (step (Frame 850) (step (TimerFired Captured)
      (step (ThemeSwitcherPressed Captured) (Screen_init (Some light) False)))))) = 1 / 2"
    by (simp_all add: eval_defs uniforms_def Easing_inOut_quad_def)
  from f g u show ?thesis
    by (simp del: step.simps)
qed

section \<open>Properties of the transition system\<close>

lemma withTiming_pending:
  "running (withTiming t d sv) \<noteq> None \<or> 0 < scheduled (withTiming t d sv)"
  by (simp add: value_defs split: option.splits)

lemma assign_pending:
  "running sv \<noteq> None \<or> 0 < scheduled sv \<Longrightarrow> 0 < scheduled (assign v sv)"
  by (auto simp add: value_defs split: option.splits)

lemma assign_running: "running (assign v sv) = None"
  by (simp add: value_defs split: option.splits)

lemma frame_pending:
  "running sv \<noteq> None \<or> 0 < scheduled sv \<Longrightarrow>
   running (frame dt sv) \<noteq> None \<or> 0 < scheduled (frame dt sv)"
  by (auto simp add: value_defs split: option.splits)

lemma second_pending_step:
  assumes "secondSnapshot (app scr) \<noteq> None \<longrightarrow>
             running (progress (app scr)) \<noteq> None \<or> 0 < scheduled (progress (app scr))"
  shows "secondSnapshot (app (step e scr)) \<noteq> None \<longrightarrow>
           running (progress (app (step e scr))) \<noteq> None \<or>
           0 < scheduled (progress (app (step e scr)))"
proof (cases e)
  case (ThemeSwitcherPressed c)
  then show ?thesis
    using assms assign_pending [of "progress (app scr)" 0]
    by (simp add: fields listener_called_fields)
next
  case (SystemAppearance cs)
  then show ?thesis
    using assms by (simp add: listener_called_fields)
next
  case (TimerFired c)
  then show ?thesis
    using assms withTiming_pending [of 1 1700 "progress (app scr)"]
    by (simp add: fields split: list.splits)
next
  case (Frame dt)
  then show ?thesis
    using assms frame_pending [of "progress (app scr)" dt] by simp
next
  case CallbackRun
  then show ?thesis
    using assms by (auto simp add: fields)
next
  case (LikePressed a)
  then show ?thesis
    using assms by simp
qed

lemma transitioning_has_callback:
  "reachable_by P scr \<Longrightarrow>
   secondSnapshot (app scr) \<noteq> None \<longrightarrow>
     running (progress (app scr)) \<noteq> None \<or> 0 < scheduled (progress (app scr))"
proof (induction rule: reachable_by.induct)
  case (init cs isThemeSwitching)
  show ?case
    by (simp add: Screen_init_def App_init_def)
next
  case (step scr e)
  from step.IH show ?case
    by (rule second_pending_step)
qed

lemma snapshot_pending_step:
  assumes "firstSnapshot (app scr) \<noteq> None \<or> secondSnapshot (app scr) \<noteq> None \<longrightarrow> pending scr"
    and "e \<noteq> TimerFired Rejected"
  shows "firstSnapshot (app (step e scr)) \<noteq> None \<or> secondSnapshot (app (step e scr)) \<noteq> None \<longrightarrow>
           pending (step e scr)"
proof (cases e)
  case (ThemeSwitcherPressed c)
  then show ?thesis
    using assms(1) assign_pending [of "progress (app scr)" 0]
    by (auto simp add: pending_def fields listener_called_fields)
next
  case (SystemAppearance cs)
  then show ?thesis
    using assms(1) by (auto simp add: pending_def listener_called_fields)
next
  case (TimerFired c)
  then show ?thesis
    using assms withTiming_pending [of 1 1700 "progress (app scr)"]
    by (auto simp add: pending_def fields split: list.splits)
next
  case (Frame dt)
  then show ?thesis
    using assms(1) frame_pending [of "progress (app scr)" dt]
    by (auto simp add: pending_def)
next
  case CallbackRun
  then show ?thesis
    using assms(1) by (auto simp add: pending_def fields)
next
  case (LikePressed a)
  then show ?thesis
    using assms(1) by (simp add: pending_def)
qed

lemma snapshots_need_pending:
  "reachable_resolving scr \<Longrightarrow>
   firstSnapshot (app scr) \<noteq> None \<or> secondSnapshot (app scr) \<noteq> None \<longrightarrow> pending scr"
  unfolding reachable_resolving_def
proof (induction rule: reachable_by.induct)
  case (init cs isThemeSwitching)
  show ?case
    by (simp add: Screen_init_def App_init_def)
next
  case (step scr e)
  from step.IH step.hyps(2) show ?case
    by (rule snapshot_pending_step)
qed

lemma themed_flip: "themed (Some (if cs = Some light then dark else light)) \<noteq> themed cs"
  by (simp add: themed_def)

lemma changeTheme_states:
  "map (\<lambda>a. (firstSnapshot a, colorScheme a))
     (states (changeTheme_statements snapshot1 (colorScheme s)) s) =
   [(firstSnapshot s, colorScheme s), (snapshot1, colorScheme s),
    (snapshot1, Some (if colorScheme s = Some light then dark else light))]"
  by (simp add: changeTheme_statements_def setFirstSnapshot_def Appearance_setColorScheme_def)

lemma press_captured:
  "app (step (ThemeSwitcherPressed Captured) scr) =
     changeTheme (Some (SkImage (themed (colorScheme (app scr))))) (app scr)"
  "timers (step (ThemeSwitcherPressed Captured) scr) =
     timers scr @ [Some (if colorScheme (app scr) = Some light then dark else light)]"
  by (auto simp add: listener_called_fields fields makeImageFromView_def)

lemma reachable_init: "reachable (Screen_init cs b)"
  unfolding reachable_def by (rule reachable_by.init)

lemma reachable_step: "reachable scr \<Longrightarrow> enabled e scr \<Longrightarrow> reachable (step e scr)"
  unfolding reachable_def by (rule reachable_by.step) simp_all

text \<open>
  Claim C1, amended. For every theme toggle that is made while no timer, no animation
  and no callback is pending, and whose two captures resolve with images: \<open>changeTheme\<close>
  stores as first snapshot the image of the view in the old colour scheme and only then
  changes the scheme, which sets the timer of the change listener; the timer, when it
  fires, stores as second snapshot the image of the view in the new scheme beside the
  first and starts the animation from \<open>0\<close> to \<open>1\<close>; both snapshots are there at every
  frame of the animation; after \<open>1700\<close> milliseconds the animation has ended and its
  callback is scheduled; and when the callback has run both references are null and
  nothing is pending any more. In every state reached without a rejected second capture,
  whenever nothing is pending, both references are null.
\<close>

theorem toggle_lifecycle:
  "(\<not> pending scr \<longrightarrow>
     (let old = colorScheme (app scr);
          new = (if old = Some light then dark else light);
          scr1 = step (ThemeSwitcherPressed Captured) scr;
          scr2 = step (TimerFired Captured) scr1;
          scr3 = step (Frame 1700) scr2;
          scr4 = step CallbackRun scr3
      in map (\<lambda>a. (firstSnapshot a, colorScheme a))
           (states (changeTheme_statements snapshot1 old) (app scr)) =
           [(firstSnapshot (app scr), old), (snapshot1, old), (snapshot1, Some new)] \<and>
         firstSnapshot (app scr1) = Some (SkImage (themed old)) \<and>
         colorScheme (app scr1) = Some new \<and> Some new \<noteq> old \<and>
         timers scr1 = [Some new] \<and> enabled (TimerFired Captured) scr1 \<and>
         firstSnapshot (app scr2) = Some (SkImage (themed old)) \<and>
         secondSnapshot (app scr2) = Some (SkImage (themed (Some new))) \<and>
         themed (Some new) \<noteq> themed old \<and>
         colorSchemeSv (app scr2) = Some new \<and> timers scr2 = [] \<and>
         running (progress (app scr2)) =
           Some \<lparr>startValue = 0, toValue = 1, duration = 1700, elapsed = 0\<rparr> \<and>
         enabled (Frame 1700) scr2 \<and>
         (\<forall>dt. firstSnapshot (app (step (Frame dt) scr2)) = Some (SkImage (themed old)) \<and>
               secondSnapshot (app (step (Frame dt) scr2)) = Some (SkImage (themed (Some new)))) \<and>
         running (progress (app scr3)) = None \<and> current (progress (app scr3)) = 1 \<and>
         enabled CallbackRun scr3 \<and>
         firstSnapshot (app scr4) = None \<and> secondSnapshot (app scr4) = None \<and>
         \<not> pending scr4)) \<and>
   (reachable_resolving scr \<and> \<not> pending scr \<longrightarrow>
      firstSnapshot (app scr) = None \<and> secondSnapshot (app scr) = None)"
proof -
  let ?old = "colorScheme (app scr)"
  let ?new = "if ?old = Some light then dark else light"
  let ?a = "step (ThemeSwitcherPressed Captured) scr"
  let ?b = "step (TimerFired Captured) ?a"
  let ?c = "step (Frame 1700) ?b"
  let ?d = "step CallbackRun ?c"
  let ?anim = "\<lparr>startValue = 0, toValue = 1, duration = 1700, elapsed = 0\<rparr>"
  have quiet: "reachable_resolving scr \<and> \<not> pending scr \<longrightarrow>
      firstSnapshot (app scr) = None \<and> secondSnapshot (app scr) = None"
    using snapshots_need_pending [of scr] by blast
  have order: "map (\<lambda>a. (firstSnapshot a, colorScheme a))
      (states (changeTheme_statements snapshot1 ?old) (app scr)) =
      [(firstSnapshot (app scr), ?old), (snapshot1, ?old), (snapshot1, Some ?new)]"
    by (rule changeTheme_states)
  have flip: "themed (Some ?new) \<noteq> themed ?old" "Some ?new \<noteq> ?old"
    using themed_flip [of ?old] by auto
  {
    assume q: "\<not> pending scr"
    then have q0: "timers scr = []" "running (progress (app scr)) = None"
        "scheduled (progress (app scr)) = 0"
      by (simp_all add: pending_def)
    have a_app: "app ?a = changeTheme (Some (SkImage (themed ?old))) (app scr)"
      by (rule press_captured)
    have a_t: "timers ?a = [Some ?new]"
      using press_captured(2) [of scr] q0(1) by simp
    have a_p: "progress (app ?a) = (progress (app scr))\<lparr>current := 0\<rparr>"
      using q0(2) by (simp add: a_app fields value_defs del: step.simps)
    have b_app: "app ?b = changeListener (Some ?new) (Some (SkImage (themed (Some ?new)))) (app ?a)"
      using a_t by (simp add: a_app fields makeImageFromView_def del: step.simps(1))
    have b_t: "timers ?b = []"
      using a_t by (simp del: step.simps(1))
    have b_p: "progress (app ?b) = (progress (app scr))\<lparr>current := 0, running := Some ?anim\<rparr>"
      using q0(2) by (simp add: b_app fields a_p value_defs Easing_0 del: step.simps)
    have b_s: "firstSnapshot (app ?b) = Some (SkImage (themed ?old))"
        "secondSnapshot (app ?b) = Some (SkImage (themed (Some ?new)))"
        "colorSchemeSv (app ?b) = Some ?new"
      by (simp_all add: b_app a_app fields del: step.simps)
    have f_s: "\<forall>dt. firstSnapshot (app (step (Frame dt) ?b)) = Some (SkImage (themed ?old)) \<and>
        secondSnapshot (app (step (Frame dt) ?b)) = Some (SkImage (themed (Some ?new)))"
      using b_s by (simp del: step.simps(1,3))
    have c_p: "progress (app ?c) = (progress (app scr))\<lparr>current := 1, running := None, scheduled := 1\<rparr>"
      using q0(3) by (simp add: b_p frame_def del: step.simps(1,3))
    have c_t: "timers ?c = []"
      using b_t by (simp del: step.simps(1,3))
    have d_s: "firstSnapshot (app ?d) = None" "secondSnapshot (app ?d) = None"
        "progress (app ?d) = (progress (app scr))\<lparr>current := 1, running := None, scheduled := 0\<rparr>"
        "timers ?d = []"
      using c_t by (simp_all add: c_p fields del: step.simps(1,3,4))
    have "firstSnapshot (app ?a) = Some (SkImage (themed ?old)) \<and>
        colorScheme (app ?a) = Some ?new \<and> timers ?a = [Some ?new] \<and>
        enabled (TimerFired Captured) ?a \<and>
        firstSnapshot (app ?b) = Some (SkImage (themed ?old)) \<and>
        secondSnapshot (app ?b) = Some (SkImage (themed (Some ?new))) \<and>
        colorSchemeSv (app ?b) = Some ?new \<and> timers ?b = [] \<and>
        running (progress (app ?b)) = Some ?anim \<and> enabled (Frame 1700) ?b \<and>
        running (progress (app ?c)) = None \<and> current (progress (app ?c)) = 1 \<and>
        enabled CallbackRun ?c \<and>
        firstSnapshot (app ?d) = None \<and> secondSnapshot (app ?d) = None \<and> \<not> pending ?d"
      using a_t b_t b_s
      by (simp add: a_app fields b_p c_p d_s pending_def del: step.simps)
    with f_s have "firstSnapshot (app ?a) = Some (SkImage (themed ?old)) \<and>
        colorScheme (app ?a) = Some ?new \<and> timers ?a = [Some ?new] \<and>
        enabled (TimerFired Captured) ?a \<and>
        firstSnapshot (app ?b) = Some (SkImage (themed ?old)) \<and>
        secondSnapshot (app ?b) = Some (SkImage (themed (Some ?new))) \<and>
        colorSchemeSv (app ?b) = Some ?new \<and> timers ?b = [] \<and>
        running (progress (app ?b)) = Some ?anim \<and> enabled (Frame 1700) ?b \<and>
        (\<forall>dt. firstSnapshot (app (step (Frame dt) ?b)) = Some (SkImage (themed ?old)) \<and>
          secondSnapshot (app (step (Frame dt) ?b)) = Some (SkImage (themed (Some ?new)))) \<and>
        running (progress (app ?c)) = None \<and> current (progress (app ?c)) = 1 \<and>
        enabled CallbackRun ?c \<and>
        firstSnapshot (app ?d) = None \<and> secondSnapshot (app ?d) = None \<and> \<not> pending ?d"
      by blast
  }
  then show ?thesis
    using quiet order flip
    by (simp add: Let_def del: step.simps enabled.simps)
qed

theorem toggle_lifecycle_witness:
  "reachable_resolving (Screen_init (Some light) False) \<and>
   \<not> pending (Screen_init (Some light) False) \<and>
   firstSnapshot (app (Screen_init (Some light) False)) = None \<and>
   secondSnapshot (app (Screen_init (Some light) False)) = None \<and>
   firstSnapshot (app (step (ThemeSwitcherPressed Captured) (Screen_init (Some light) False))) =
     Some (SkImage (themed (Some light))) \<and>
   secondSnapshot (app (step (TimerFired Captured)
     (step (ThemeSwitcherPressed Captured) (Screen_init (Some light) False)))) =
     Some (SkImage (themed (Some dark))) \<and>
   firstSnapshot (app (step CallbackRun (step (Frame 1700) (step (TimerFired Captured)
     (step (ThemeSwitcherPressed Captured) (Screen_init (Some light) False)))))) = None \<and>
   secondSnapshot (app (step CallbackRun (step (Frame 1700) (step (TimerFired Captured)
     (step (ThemeSwitcherPressed Captured) (Screen_init (Some light) False)))))) = None"
proof -
  have r: "reachable_resolving (Screen_init (Some light) False)"
    unfolding reachable_resolving_def by (rule reachable_by.init)
  have q: "\<not> pending (Screen_init (Some light) False)"
    by (simp add: pending_def init_defs)
  have c: "colorScheme (app (Screen_init (Some light) False)) = Some light"
    by (simp add: init_defs)
  from r q toggle_lifecycle [of "Screen_init (Some light) False" None] show ?thesis
    by (simp add: Let_def c del: step.simps)
qed

text \<open>
  The first claim as it is written asks for a first snapshot that is not null after
  every toggle. A toggle whose capture resolves with null changes the colour scheme and
  leaves the first snapshot null.
\<close>

theorem toggle_lifecycle_counterexample:
  "enabled (ThemeSwitcherPressed ResolvedNull) (Screen_init (Some light) False) \<and>
   firstSnapshot (app (step (ThemeSwitcherPressed ResolvedNull) (Screen_init (Some light) False))) =
     None \<and>
   colorScheme (app (step (ThemeSwitcherPressed ResolvedNull) (Screen_init (Some light) False))) =
     Some dark"
  by (simp add: init_defs transitioning_def listener_called_fields fields makeImageFromView_def)

lemma snapshots_le_2: "length (snapshots s) \<le> 2"
  by (cases "firstSnapshot s"; cases "secondSnapshot s") (simp_all add: snapshots_def)

lemma step_snapshots:
  "(firstSnapshot (app (step e scr)), secondSnapshot (app (step e scr))) =
     (case e of
        ThemeSwitcherPressed c \<Rightarrow>
          (if c = Rejected then firstSnapshot (app scr) else makeImageFromView c (app scr),
           secondSnapshot (app scr))
      | TimerFired c \<Rightarrow>
          (firstSnapshot (app scr),
           if c = Rejected \<or> timers scr = [] then secondSnapshot (app scr)
           else makeImageFromView c (app scr))
      | CallbackRun \<Rightarrow>
          (if scheduled (progress (app scr)) = 0
           then (firstSnapshot (app scr), secondSnapshot (app scr)) else (None, None))
      | _ \<Rightarrow> (firstSnapshot (app scr), secondSnapshot (app scr)))"
  by (cases e) (simp_all add: fields listener_called_fields split: list.splits)

text \<open>
  Claim C3, amended. The component holds at most two snapshots at once. An event changes
  the two references only as follows: a press of the theme switcher whose capture
  resolves writes what the capture resolved with into the first reference; the
  appearance-change step whose capture resolves writes it into the second; a run of the
  \<^verbatim>\<open>withTiming\<close> callback sets both to null. So a reference becomes non-null only by one
  of the two steps and only with an image, and it becomes null by the callback or when
  its own capture resolves with null. While both are non-null the shader is drawn with
  the two snapshots as its children.
\<close>

theorem snapshot_lifecycle:
  "length (snapshots (app scr)) \<le> 2 \<and>
   (firstSnapshot (app (step e scr)), secondSnapshot (app (step e scr))) =
     (case e of
        ThemeSwitcherPressed c \<Rightarrow>
          (if c = Rejected then firstSnapshot (app scr) else makeImageFromView c (app scr),
           secondSnapshot (app scr))
      | TimerFired c \<Rightarrow>
          (firstSnapshot (app scr),
           if c = Rejected \<or> timers scr = [] then secondSnapshot (app scr)
           else makeImageFromView c (app scr))
      | CallbackRun \<Rightarrow>
          (if scheduled (progress (app scr)) = 0
           then (firstSnapshot (app scr), secondSnapshot (app scr)) else (None, None))
      | _ \<Rightarrow> (firstSnapshot (app scr), secondSnapshot (app scr))) \<and>
   (makeImageFromView c (app scr) \<noteq> None \<longleftrightarrow> c = Captured) \<and>
   (transitioning (app scr) \<and>
    Make (transition_head @ directionalwrap_source @ transition_tail) = Some rt \<longrightarrow>
      App ops Make w h (app scr) =
        Inr (AnimatedView (animatedBackgroundColor (app scr))
              [Canvas h
                [Fill
                  [Shader rt (uniforms w h (app scr))
                    [ImageShader (firstSnapshot (app scr)) w h,
                     ImageShader (secondSnapshot (app scr)) w h]]]]))"
  using snapshots_le_2 [of "app scr"] step_snapshots [of e scr]
    App_transitioning [of "app scr" Make rt ops w h]
  by (simp add: makeImageFromView_def del: step.simps)

theorem snapshot_lifecycle_witness:
  "transitioning (app (step (Frame 1700) (step (TimerFired Captured)
     (step (ThemeSwitcherPressed Captured) (Screen_init (Some light) False))))) \<and>
   App int_ops Some 4 2 (app (step (Frame 1700) (step (TimerFired Captured)
     (step (ThemeSwitcherPressed Captured) (Screen_init (Some light) False))))) =
     Inr (AnimatedView (InterpolateColor 1 ''#ffffff'' ''#020617'')
           [Canvas 2
             [Fill
               [Shader (transition_head @ directionalwrap_source @ transition_tail)
                 \<lparr>progress_uniform = 1, resolution = (4, 2)\<rparr>
                 [ImageShader (Some (SkImage (themed (Some light)))) 4 2,
                  ImageShader (Some (SkImage (themed (Some dark)))) 4 2]]]]) \<and>
   (firstSnapshot (app (step CallbackRun (step (Frame 1700) (step (TimerFired Captured)
      (step (ThemeSwitcherPressed Captured) (Screen_init (Some light) False)))))),
    secondSnapshot (app (step CallbackRun (step (Frame 1700) (step (TimerFired Captured)
      (step (ThemeSwitcherPressed Captured) (Screen_init (Some light) False))))))) =
     (None, None)"
proof -
  let ?s3 = "step (Frame 1700) (step (TimerFired Captured)
     (step (ThemeSwitcherPressed Captured) (Screen_init (Some light) False)))"
  have t: "transitioning (app ?s3)"
    by (simp add: eval_defs)
  have s: "scheduled (progress (app ?s3)) = 1" "current (progress (app ?s3)) = 1"
      "colorSchemeSv (app ?s3) = Some dark"
      "firstSnapshot (app ?s3) = Some (SkImage (themed (Some light)))"
      "secondSnapshot (app ?s3) = Some (SkImage (themed (Some dark)))"
    by (simp_all add: eval_defs)
  from t snapshot_lifecycle [of ?s3 CallbackRun Captured Some
      "transition_head @ directionalwrap_source @ transition_tail" int_ops 4 2]
  show ?thesis
    by (simp add: s animatedBackgroundColor_def uniforms_def del: step.simps)
qed

text \<open>
  The third claim as it is written lets only the callback of the animation clear a
  reference. After two changes of the system's appearance, the second with a capture
  that resolves with null, the appearance-change step clears the second reference.
\<close>

theorem snapshot_lifecycle_counterexample:
  "reachable (step (SystemAppearance (Some light)) (step (TimerFired Captured)
     (step (SystemAppearance (Some dark)) (Screen_init (Some light) False)))) \<and>
   enabled (TimerFired ResolvedNull) (step (SystemAppearance (Some light))
     (step (TimerFired Captured)
       (step (SystemAppearance (Some dark)) (Screen_init (Some light) False)))) \<and>
   secondSnapshot (app (step (SystemAppearance (Some light)) (step (TimerFired Captured)
     (step (SystemAppearance (Some dark)) (Screen_init (Some light) False))))) =
     Some (SkImage (themed (Some dark))) \<and>
   secondSnapshot (app (step (TimerFired ResolvedNull) (step (SystemAppearance (Some light))
     (step (TimerFired Captured)
       (step (SystemAppearance (Some dark)) (Screen_init (Some light) False)))))) = None \<and>
   TimerFired ResolvedNull \<noteq> CallbackRun"
proof -
  let ?s0 = "Screen_init (Some light) False"
  let ?s1 = "step (SystemAppearance (Some dark)) ?s0"
  let ?s2 = "step (TimerFired Captured) ?s1"
  let ?s3 = "step (SystemAppearance (Some light)) ?s2"
  have r0: "reachable ?s0"
    by (rule reachable_init)
  have "enabled (SystemAppearance (Some dark)) ?s0"
    by (simp add: eval_defs)
  with r0 have r1: "reachable ?s1"
    by (rule reachable_step)
  have "enabled (TimerFired Captured) ?s1"
    by (simp add: eval_defs)
  with r1 have r2: "reachable ?s2"
    by (rule reachable_step)
  have "enabled (SystemAppearance (Some light)) ?s2"
    by (simp add: eval_defs)
  with r2 have r3: "reachable ?s3"
    by (rule reachable_step)
  have "enabled (TimerFired ResolvedNull) ?s3"
      "secondSnapshot (app ?s3) = Some (SkImage (themed (Some dark)))"
      "secondSnapshot (app (step (TimerFired ResolvedNull) ?s3)) = None"
    by (simp_all add: eval_defs)
  with r3 show ?thesis
    by (simp del: step.simps enabled.simps)
qed

lemma phase_Transitioning:
  "phase s = Transitioning \<longleftrightarrow> firstSnapshot s \<noteq> None \<and> secondSnapshot s \<noteq> None"
  by (simp add: phase_def transitioning_def)

lemma phase_Idle: "phase s = Idle \<longleftrightarrow> firstSnapshot s = None \<or> secondSnapshot s = None"
  by (simp add: phase_def transitioning_def)

lemma App_View_iff: "(\<exists>v. App ops Make w h s = Inr (View v)) \<longleftrightarrow> phase s = Idle"
  by (simp add: App_def phase_def split: sum.splits)

lemma callback_Idle:
  "0 < scheduled (progress (app scr)) \<Longrightarrow> phase (app (step CallbackRun scr)) = Idle"
  by (simp add: phase_Idle fields)

lemma finishing_frame:
  assumes "running (progress (app scr)) = Some a"
  shows "enabled CallbackRun (step (Frame (duration a - elapsed a)) scr) \<and>
   phase (app (step CallbackRun (step (Frame (duration a - elapsed a)) scr))) = Idle"
proof -
  have "duration a \<le> elapsed a + (duration a - elapsed a)"
    by arith
  with assms show ?thesis
    by (simp add: phase_Idle fields frame_def Let_def)
qed

lemma frame_phase: "phase (app (step (Frame dt) scr)) = phase (app scr)"
  by (simp add: phase_def transitioning_def)

lemma step_enters_Transitioning:
  "phase (app scr) = Idle \<Longrightarrow> phase (app (step e scr)) = Transitioning \<Longrightarrow>
   e = ThemeSwitcherPressed Captured \<or> e = TimerFired Captured"
  by (cases e)
    (auto simp add: phase_Transitioning phase_Idle fields listener_called_fields
      makeImageFromView_def split: list.splits if_splits)

lemma step_leaves_Transitioning:
  assumes "enabled e scr" "phase (app scr) = Transitioning" "phase (app (step e scr)) = Idle"
  shows "e = CallbackRun \<or> e = TimerFired ResolvedNull"
proof (cases e)
  case (TimerFired c)
  with assms show ?thesis
    by (cases c)
      (auto simp add: phase_Transitioning phase_Idle fields makeImageFromView_def
        split: list.splits)
next
  case (ThemeSwitcherPressed c)
  with assms show ?thesis
    by (simp add: phase_def)
next
  case (SystemAppearance cs)
  with assms show ?thesis
    by (auto simp add: phase_Transitioning phase_Idle listener_called_fields)
next
  case (Frame dt)
  with assms show ?thesis
    by (auto simp add: phase_Transitioning phase_Idle)
next
  case CallbackRun
  then show ?thesis
    by simp
next
  case (LikePressed a)
  with assms show ?thesis
    by (simp add: phase_def)
qed

text \<open>
  Claim C5, amended. The component has the two phases idle and transitioning and no
  other: it is transitioning exactly when both snapshot references are non-null, and it
  returns the plain view exactly when it is idle. It starts idle and an event takes it
  from idle to transitioning only if it is a press of the theme switcher or an
  appearance-change step whose capture resolved with an image. In every reachable
  transitioning state the animation is running or a call of its callback is scheduled
  already; frames leave the phase as it is, the end of the animation schedules the
  callback, and the run of the callback returns the component to idle. Apart from the
  callback, only an appearance-change step whose capture resolves with null leaves
  transitioning.
\<close>

theorem phase_machine:
  "(phase (app scr) = Transitioning \<longleftrightarrow>
      firstSnapshot (app scr) \<noteq> None \<and> secondSnapshot (app scr) \<noteq> None) \<and>
   (phase (app scr) = Idle \<or> phase (app scr) = Transitioning) \<and>
   ((\<exists>v. App ops Make w h (app scr) = Inr (View v)) \<longleftrightarrow> phase (app scr) = Idle) \<and>
   phase (app (Screen_init cs b)) = Idle \<and>
   (reachable scr \<and> phase (app scr) = Transitioning \<longrightarrow>
      running (progress (app scr)) \<noteq> None \<or> 0 < scheduled (progress (app scr))) \<and>
   (\<forall>a. running (progress (app scr)) = Some a \<longrightarrow>
      enabled CallbackRun (step (Frame (duration a - elapsed a)) scr) \<and>
      phase (app (step CallbackRun (step (Frame (duration a - elapsed a)) scr))) = Idle) \<and>
   (0 < scheduled (progress (app scr)) \<longrightarrow> phase (app (step CallbackRun scr)) = Idle) \<and>
   (\<forall>dt. phase (app (step (Frame dt) scr)) = phase (app scr)) \<and>
   (\<forall>e. phase (app scr) = Idle \<and> phase (app (step e scr)) = Transitioning \<longrightarrow>
      e = ThemeSwitcherPressed Captured \<or> e = TimerFired Captured) \<and>
   (\<forall>e. enabled e scr \<and> phase (app scr) = Transitioning \<and> phase (app (step e scr)) = Idle \<longrightarrow>
      e = CallbackRun \<or> e = TimerFired ResolvedNull)"
proof -
  have "phase (app (Screen_init cs b)) = Idle"
    by (simp add: phase_Idle Screen_init_def App_init_def)
  moreover have "phase (app scr) = Idle \<or> phase (app scr) = Transitioning"
    by (cases "phase (app scr)") simp_all
  moreover have "reachable scr \<and> phase (app scr) = Transitioning \<longrightarrow>
      running (progress (app scr)) \<noteq> None \<or> 0 < scheduled (progress (app scr))"
    using transitioning_has_callback [of "\<lambda>e. True" scr]
    by (simp add: reachable_def phase_Transitioning)
  ultimately show ?thesis
    using phase_Transitioning [of "app scr"] App_View_iff [of ops Make w h "app scr"]
      finishing_frame [of scr] callback_Idle [of scr] frame_phase [of _ scr]
      step_enters_Transitioning [of scr] step_leaves_Transitioning [of _ scr]
    by (simp del: step.simps enabled.simps)
qed

theorem phase_machine_witness:
  "reachable (step (TimerFired Captured)
     (step (ThemeSwitcherPressed Captured) (Screen_init (Some light) False))) \<and>
   phase (app (step (TimerFired Captured)
     (step (ThemeSwitcherPressed Captured) (Screen_init (Some light) False)))) = Transitioning \<and>
   running (progress (app (step (TimerFired Captured)
     (step (ThemeSwitcherPressed Captured) (Screen_init (Some light) False))))) =
     Some \<lparr>startValue = 0, toValue = 1, duration = 1700, elapsed = 0\<rparr> \<and>
   enabled CallbackRun (step (Frame 1700) (step (TimerFired Captured)
     (step (ThemeSwitcherPressed Captured) (Screen_init (Some light) False)))) \<and>
   phase (app (step CallbackRun (step (Frame 1700) (step (TimerFired Captured)
     (step (ThemeSwitcherPressed Captured) (Screen_init (Some light) False)))))) = Idle"
proof -
  let ?s0 = "Screen_init (Some light) False"
  let ?s1 = "step (ThemeSwitcherPressed Captured) ?s0"
  let ?s2 = "step (TimerFired Captured) ?s1"
  have r0: "reachable ?s0"
    by (rule reachable_init)
  have "enabled (ThemeSwitcherPressed Captured) ?s0"
    by (simp add: eval_defs)
  with r0 have r1: "reachable ?s1"
    by (rule reachable_step)
  have "enabled (TimerFired Captured) ?s1"
    by (simp add: eval_defs)
  with r1 have r2: "reachable ?s2"
    by (rule reachable_step)
  have p: "phase (app ?s2) = Transitioning"
    by (simp add: phase_def eval_defs)
  have a: "running (progress (app ?s2)) =
      Some \<lparr>startValue = 0, toValue = 1, duration = 1700, elapsed = 0\<rparr>"
    by (simp add: eval_defs)
  from r2 p a phase_machine [of ?s2 int_ops Some 4 2 "Some light" False] show ?thesis
    by (simp del: step.simps enabled.simps)
qed

text \<open>
  The fifth claim as it is written has every transitioning phase end when the animation
  completes. A press of the theme switcher while the animation of a change of the
  system's appearance is running cancels that animation: the component is then
  transitioning with no animation running, and the callback of the cancelled animation
  returns it to idle.
\<close>

theorem phase_machine_counterexample:
  "reachable (step (ThemeSwitcherPressed Captured) (step (TimerFired Captured)
     (step (SystemAppearance (Some dark)) (Screen_init (Some light) False)))) \<and>
   phase (app (step (ThemeSwitcherPressed Captured) (step (TimerFired Captured)
     (step (SystemAppearance (Some dark)) (Screen_init (Some light) False))))) = Transitioning \<and>
   running (progress (app (step (ThemeSwitcherPressed Captured) (step (TimerFired Captured)
     (step (SystemAppearance (Some dark)) (Screen_init (Some light) False)))))) = None \<and>
   phase (app (step CallbackRun (step (ThemeSwitcherPressed Captured) (step (TimerFired Captured)
     (step (SystemAppearance (Some dark)) (Screen_init (Some light) False)))))) = Idle"
proof -
  let ?s0 = "Screen_init (Some light) False"
  let ?s1 = "step (SystemAppearance (Some dark)) ?s0"
  let ?s2 = "step (TimerFired Captured) ?s1"
  let ?s3 = "step (ThemeSwitcherPressed Captured) ?s2"
  have r0: "reachable ?s0"
    by (rule reachable_init)
  have "enabled (SystemAppearance (Some dark)) ?s0"
    by (simp add: eval_defs)
  with r0 have r1: "reachable ?s1"
    by (rule reachable_step)
  have "enabled (TimerFired Captured) ?s1"
    by (simp add: eval_defs)
  with r1 have r2: "reachable ?s2"
    by (rule reachable_step)
  have "enabled (ThemeSwitcherPressed Captured) ?s2"
    by (simp add: eval_defs)
  with r2 have r3: "reachable ?s3"
    by (rule reachable_step)
  have "phase (app ?s3) = Transitioning" "running (progress (app ?s3)) = None"
      "phase (app (step CallbackRun ?s3)) = Idle"
    by (simp_all add: phase_def eval_defs)
  with r3 show ?thesis
    by (simp del: step.simps)
qed

section \<open>The first snapshot on the screen\<close>


lemma layout_first_only:
  "layout content (View [Canvas h [Image (Some img) w h], themedView cs]) =
     [((0, h), Canvas h [Image (Some img) w h]), ((h, h + content), themedView cs)]"
  by (simp add: themedView_def)






section \<open>The cards\<close>

text \<open>
  Claim C7. Pressing the like affordance of a card negates the atom of that card and
  leaves every other atom, the state of \<open>App\<close> and the timers as they were.
\<close>

theorem like_toggles_one_atom:
  "store (step (LikePressed cardAtom) scr) a =
     (if a = cardAtom then \<not> store scr cardAtom else store scr a) \<and>
   app (step (LikePressed cardAtom) scr) = app scr \<and>
   timers (step (LikePressed cardAtom) scr) = timers scr"
  by (simp add: Card_onPress_def Let_def)

theorem like_toggles_one_atom_witness:
  "map (store (step (LikePressed milkAtom) (Screen_init (Some light) False))) Cards =
     [False, True, False, False] \<and>
   store (step (LikePressed milkAtom) (Screen_init (Some light) False)) themeSwitchAtom = False \<and>
   app (step (LikePressed milkAtom) (Screen_init (Some light) False)) =
     app (Screen_init (Some light) False)"
  using like_toggles_one_atom [of milkAtom "Screen_init (Some light) False" bikeAtom]
    like_toggles_one_atom [of milkAtom "Screen_init (Some light) False" milkAtom]
    like_toggles_one_atom [of milkAtom "Screen_init (Some light) False" teddybearAtom]
    like_toggles_one_atom [of milkAtom "Screen_init (Some light) False" ballAtom]
    like_toggles_one_atom [of milkAtom "Screen_init (Some light) False" themeSwitchAtom]
  by (simp add: Cards_def Screen_init_def Store_init_def)

end
